theory Spec2Isabelle
  imports Main
begin

section \<open>Data model\<close>

text \<open>
  The repository holds two variants of the GitLab client: \<^verbatim>\<open>unnamed/part_000\<close>, the
  variant the specification describes, and \<^verbatim>\<open>src/gitlab.js\<close>. Both are embedded
  below: \<open>diffFile\<close> follows the first, \<open>diffFile_src\<close> the second. Both require
  the classes Project, Commit and File (\<^verbatim>\<open>./project\<close>, \<^verbatim>\<open>./commit\<close>,
  \<^verbatim>\<open>./file\<close>), whose code is not among the source files.
\<close>

text \<open>
  Modelled from the spec: the Project class (project.js is missing). A Project is an
  immutable value with the fields that \<^verbatim>\<open>GitLab.getProject\<close> passes to its
  constructor.
\<close>

record Project =
  project_id :: nat
  project_name :: string
  project_description :: string
  project_namespace :: string
  project_url :: string
  project_path :: string
  project_tags :: "string list"

text \<open>
  Modelled from the spec: the Commit class (commit.js is missing): a project reference and
  a revision identifier, immutable.
\<close>

record Commit =
  commit_id :: string
  commit_project :: Project

abbreviation getID :: "Commit \<Rightarrow> string" where
  "getID c \<equiv> commit_id c"

abbreviation getProject :: "Commit \<Rightarrow> Project" where
  "getProject c \<equiv> commit_project c"

text \<open>
  Modelled from the spec: the File class (file.js is missing): a project reference, a path,
  an optional content payload and an accumulated signed line delta. The Absent marker is
  the JavaScript value \<^verbatim>\<open>false\<close> (the source tests \<^verbatim>\<open>getContent() === false\<close>);
  it is \<open>None\<close> here, and a content string \<open>c\<close> is \<open>Some c\<close>. A new File has
  Absent content and a delta of 0. The setters store what they are given.
\<close>

record File =
  name :: string
  project :: Project
  content :: "string option"
  additions :: int

definition new_File :: "string \<Rightarrow> Project \<Rightarrow> File" where
  "new_File filename p = \<lparr>name = filename, project = p, content = None, additions = 0\<rparr>"

abbreviation getName :: "File \<Rightarrow> string" where
  "getName f \<equiv> name f"

abbreviation getContent :: "File \<Rightarrow> string option" where
  "getContent f \<equiv> content f"

definition setContent :: "File \<Rightarrow> string \<Rightarrow> File" where
  "setContent f c = f\<lparr>content := Some c\<rparr>"

definition setAdditions :: "File \<Rightarrow> int \<Rightarrow> File" where
  "setAdditions f n = f\<lparr>additions := n\<rparr>"

definition addAdditions :: "File \<Rightarrow> int \<Rightarrow> File" where
  "addAdditions f n = f\<lparr>additions := additions f + n\<rparr>"

subsection \<open>JavaScript dates\<close>

text \<open>
  A Date object, seen through the local calendar: an invalid date, or a year and a month
  index (0 for January up to 11 for December). \<^verbatim>\<open>getMonth()\<close> returns the month
  index alone, and NaN (\<open>None\<close>) for an invalid date. \<^verbatim>\<open>!==\<close> on two numbers is
  true as soon as one of them is NaN.
\<close>

datatype js_date = InvalidDate | Date int nat

fun getMonth :: "js_date \<Rightarrow> nat option" where
  "getMonth InvalidDate = None"
| "getMonth (Date y m) = Some m"

fun strict_neq :: "nat option \<Rightarrow> nat option \<Rightarrow> bool" where
  "strict_neq (Some a) (Some b) = (a \<noteq> b)"
| "strict_neq _ _ = True"

text \<open>Two dates fall in the same calendar month when year and month index agree.\<close>

fun same_calendar_month :: "js_date \<Rightarrow> js_date \<Rightarrow> bool" where
  "same_calendar_month (Date y m) (Date y' m') = (y = y' \<and> m = m')"
| "same_calendar_month _ _ = False"

subsection \<open>Remote responses\<close>

text \<open>
  The commit metadata as the service returns it; \<open>created_at\<close> stands for the Date
  that \<^verbatim>\<open>new Date(commitData.created_at)\<close> builds from the field.
\<close>

record CommitData =
  parent_ids :: "string list"
  created_at :: js_date

text \<open>One hunk of a structured patch, with its two line counts.\<close>

record hunk =
  oldLines :: int
  newLines :: int

text \<open>
  What the HTTP library \<^verbatim>\<open>got\<close> does with one request: a response whose body parses
  as JSON, a response whose body does not parse, an HTTP error that carries the response
  body, or a request error without any response.
\<close>

datatype 'a got_result = Body 'a | BadBody | HTTPError string | RequestError

text \<open>A promise is resolved with a value, rejected with a reason, or never settled.\<close>

datatype 'a promise = Resolved 'a | Rejected string | Pending

subsection \<open>Environment\<close>

text \<open>
  Everything \<open>diffFile\<close> reads from outside: the remote service, the clock, the library
  primitives and the methods of File whose code is missing.
  \<^item> \<open>gotCommit\<close> and \<open>gotFile\<close> answer the two kinds of request; the parsed body is
    \<open>None\<close> when it is falsy (\<^verbatim>\<open>null\<close>), else the commit metadata, respectively the
    \<^verbatim>\<open>content\<close> field of the file object.
  \<^item> \<open>now\<close> is \<^verbatim>\<open>new Date()\<close>.
  \<^item> \<open>atob\<close> and \<open>structuredPatch\<close> are the library primitives.
  \<^item> \<open>jsonMessage\<close> is \<^verbatim>\<open>JSON.parse(err).message\<close> as printed in a template string,
    \<open>None\<close> when evaluating it throws (the text is not JSON, or is \<^verbatim>\<open>null\<close>).
  \<^item> Modelled from the spec: \<open>isIgnored\<close> and \<open>getSkill\<close> (File Reference validation,
    decided by the path; \<open>None\<close> is a falsy skill) and \<open>lineCount\<close>, the total line
    count of a content payload that \<^verbatim>\<open>File.getLines\<close> returns, a natural number.
\<close>

record env =
  gotCommit :: "nat \<Rightarrow> string \<Rightarrow> CommitData option got_result"
  gotFile :: "nat \<Rightarrow> string \<Rightarrow> string \<Rightarrow> string option got_result"
  now :: js_date
  atob :: "string \<Rightarrow> string"
  structuredPatch :: "string \<Rightarrow> string \<Rightarrow> string \<Rightarrow> string \<Rightarrow> hunk list"
  jsonMessage :: "string \<Rightarrow> string option"
  isIgnored :: "string \<Rightarrow> bool"
  getSkill :: "string \<Rightarrow> string option"
  lineCount :: "string option \<Rightarrow> nat"

definition getLines :: "env \<Rightarrow> File \<Rightarrow> int" where
  "getLines E f = int (lineCount E (getContent f))"

subsection \<open>Program state\<close>

text \<open>
  File objects are mutable and passed by reference, so they live in a store: \<open>heap\<close>
  maps a reference to the object, \<open>fresh\<close> is the next unused reference. \<open>trace\<close>
  records, in order, what a run does to the outside: the requests it issues, the lines it
  logs and the calls of the diff primitive.
\<close>

datatype event =
    QueryCommit nat string
  | QueryFile nat string string
  | Log string
  | Patch string string string string

record state =
  heap :: "nat \<Rightarrow> File"
  fresh :: nat
  trace :: "event list"

definition alloc :: "File \<Rightarrow> state \<Rightarrow> nat \<times> state" where
  "alloc f s = (fresh s, s\<lparr>heap := (heap s)(fresh s := f), fresh := Suc (fresh s)\<rparr>)"

definition update :: "nat \<Rightarrow> (File \<Rightarrow> File) \<Rightarrow> state \<Rightarrow> state" where
  "update r g s = s\<lparr>heap := (heap s)(r := g (heap s r))\<rparr>"

definition emit :: "event \<Rightarrow> state \<Rightarrow> state" where
  "emit e s = s\<lparr>trace := trace s @ [e]\<rparr>"

text \<open>The events a run added to the trace of the state it started from.\<close>

definition emitted :: "state \<Rightarrow> state \<Rightarrow> event list" where
  "emitted s s' = drop (length (trace s)) (trace s')"

fun is_QueryFile :: "event \<Rightarrow> bool" where
  "is_QueryFile (QueryFile p n r) = True"
| "is_QueryFile _ = False"

fun is_QueryCommit :: "event \<Rightarrow> bool" where
  "is_QueryCommit (QueryCommit p c) = True"
| "is_QueryCommit _ = False"

fun is_Patch :: "event \<Rightarrow> bool" where
  "is_Patch (Patch a b c d) = True"
| "is_Patch _ = False"

fun is_Log :: "event \<Rightarrow> bool" where
  "is_Log (Log m) = True"
| "is_Log _ = False"

section \<open>The GitLab client\<close>

subsection \<open>query\<close>

text \<open>
  \<^verbatim>\<open>query(path)\<close> resolves with the parsed body. When \<^verbatim>\<open>got\<close> fails, the handler
  rejects with \<^verbatim>\<open>err.response.body\<close>; when the error carries no response (a request
  error, or the SyntaxError of \<^verbatim>\<open>JSON.parse\<close> thrown in the first handler) reading
  that property throws inside the handler and the promise is never settled.
\<close>

fun query :: "'a got_result \<Rightarrow> 'a promise" where
  "query (Body v) = Resolved v"
| "query BadBody = Pending"
| "query (HTTPError body) = Rejected body"
| "query RequestError = Pending"

subsection \<open>fetchFileContent\<close>

text \<open>
  The diagnostic line of the failure handler.
\<close>

definition fetch_error_line :: "File \<Rightarrow> Commit \<Rightarrow> string \<Rightarrow> string" where
  "fetch_error_line f commit message =
     getName f @ '' @ #'' @ getID commit @ '': error loading file content - '' @ message"

text \<open>
  \<^verbatim>\<open>fetchFileContent(commit, file)\<close>: one request for the file at the commit's
  revision. The first handler stores \<^verbatim>\<open>response.content\<close> when the response is truthy
  and resolves with \<open>file\<close>; the failure handler parses the rejection text, logs it and
  resolves with \<open>file\<close>. When parsing throws, or when the query is never settled,
  \<^verbatim>\<open>resolve\<close> is never called. The executor has no \<^verbatim>\<open>reject\<close>.
  (The two variants differ only in the request path, where one applies
  \<^verbatim>\<open>encodeURI\<close> to the file name.)
\<close>

definition fetchFileContent :: "env \<Rightarrow> Commit \<Rightarrow> nat \<Rightarrow> state \<Rightarrow> nat promise \<times> state" where
  "fetchFileContent E commit file s =
     (let pid = project_id (getProject commit);
          s1 = emit (QueryFile pid (getName (heap s file)) (getID commit)) s
      in case query (gotFile E pid (getName (heap s file)) (getID commit)) of
           Resolved response \<Rightarrow>
             (case response of
                Some c \<Rightarrow> (Resolved file, update file (\<lambda>f. setContent f c) s1)
              | None \<Rightarrow> (Resolved file, s1))
         | Rejected err \<Rightarrow>
             (case jsonMessage E err of
                None \<Rightarrow> (Pending, s1)
              | Some message \<Rightarrow>
                  (Resolved file,
                   emit (Log (fetch_error_line (heap s1 file) commit message)) s1))
         | Pending \<Rightarrow> (Pending, s1))"

subsection \<open>diffFile\<close>

text \<open>Every reason and log line starts with the file name and the commit identifier.\<close>

definition tagged :: "string \<Rightarrow> Commit \<Rightarrow> string \<Rightarrow> string" where
  "tagged filename commit msg = filename @ '' @ #'' @ getID commit @ '': '' @ msg"

text \<open>Decimal rendering of \<^verbatim>\<open>diff.hunks.length\<close> in the log line.\<close>

fun showNat :: "nat \<Rightarrow> string" where
  "showNat n =
     (if n < 10 then [''0123456789'' ! n]
      else showNat (n div 10) @ [''0123456789'' ! (n mod 10)])"

declare showNat.simps [simp del]

text \<open>
  \<^verbatim>\<open>atob\<close> applied to what \<^verbatim>\<open>getContent()\<close> returns: a string is decoded; the
  Absent marker \<^verbatim>\<open>false\<close> is not a string and the call throws (\<open>None\<close>).
\<close>

fun atob_value :: "env \<Rightarrow> string option \<Rightarrow> string option" where
  "atob_value E (Some c) = Some (atob E c)"
| "atob_value E None = None"

text \<open>
  The branch that computes the diff (shared by both variants): decode both contents, call
  \<^verbatim>\<open>structuredPatch\<close>, add \<^verbatim>\<open>hunk.newLines - hunk.oldLines\<close> to the new file for
  every hunk in order, log, resolve with the new file. An exception in the handler leaves
  the promise unsettled.
\<close>

definition calculateDiff :: "env \<Rightarrow> Commit \<Rightarrow> string \<Rightarrow> nat \<Rightarrow> nat \<Rightarrow> state \<Rightarrow> nat promise \<times> state" where
  "calculateDiff E commit filename newFile oldFile s =
     (case atob_value E (getContent (heap s oldFile)) of
        None \<Rightarrow> (Pending, s)
      | Some oldText \<Rightarrow>
          (case atob_value E (getContent (heap s newFile)) of
             None \<Rightarrow> (Pending, s)
           | Some newText \<Rightarrow>
               (let oldName = getName (heap s oldFile);
                    newName = getName (heap s newFile);
                    hunks = structuredPatch E oldName newName oldText newText;
                    s1 = emit (Patch oldName newName oldText newText) s
                in if length hunks > 0 then
                     (let s2 = update newFile
                            (\<lambda>f. foldl (\<lambda>f h. addAdditions f (newLines h - oldLines h)) f hunks) s1;
                          s3 = emit (Log (tagged filename commit
                                 (''parsed '' @ showNat (length hunks) @ '' diff(s)''))) s2
                      in (Resolved newFile, s3))
                   else
                     (Resolved newFile,
                      emit (Log (tagged filename commit ''no diffs found'')) s1))))"

text \<open>The two whole-file branches.\<close>

definition detectedAddition :: "env \<Rightarrow> Commit \<Rightarrow> string \<Rightarrow> nat \<Rightarrow> state \<Rightarrow> nat promise \<times> state" where
  "detectedAddition E commit filename newFile s =
     (let s1 = emit (Log (tagged filename commit ''detected addition'')) s;
          s2 = update newFile (\<lambda>f. setAdditions f (getLines E f)) s1
      in (Resolved newFile, s2))"

definition detectedRemoval :: "env \<Rightarrow> Commit \<Rightarrow> string \<Rightarrow> nat \<Rightarrow> state \<Rightarrow> nat promise \<times> state" where
  "detectedRemoval E commit filename oldFile s =
     (let s1 = emit (Log (tagged filename commit ''detected removal'')) s;
          s2 = update oldFile (\<lambda>f. setAdditions f (- getLines E f)) s1
      in (Resolved oldFile, s2))"

text \<open>
  A handler attached with \<^verbatim>\<open>.then\<close> and nothing else runs only when the promise
  resolves. The outer promise of \<open>diffFile\<close> is settled by the calls of
  \<^verbatim>\<open>resolve\<close> and \<^verbatim>\<open>reject\<close> alone, so it stays pending otherwise.
\<close>

definition on_resolved ::
  "'a promise \<times> state \<Rightarrow> ('a \<Rightarrow> state \<Rightarrow> 'b promise \<times> state) \<Rightarrow> 'b promise \<times> state" where
  "on_resolved ps k =
     (case ps of
        (Resolved v, s) \<Rightarrow> k v s
      | (Rejected e, s) \<Rightarrow> (Pending, s)
      | (Pending, s) \<Rightarrow> (Pending, s))"

text \<open>The handler of the parent fetch, \<^verbatim>\<open>(oldFile) => ...\<close>.\<close>

definition onOldFile :: "env \<Rightarrow> Commit \<Rightarrow> string \<Rightarrow> string \<Rightarrow> nat \<Rightarrow> nat \<Rightarrow> state \<Rightarrow> nat promise \<times> state" where
  "onOldFile E commit filename status newFile oldFile s =
     (if status = ''removal'' \<or> getContent (heap s newFile) = None then
        detectedRemoval E commit filename oldFile s
      else if getContent (heap s oldFile) = None then
        detectedAddition E commit filename newFile s
      else calculateDiff E commit filename newFile oldFile s)"

text \<open>
  The request for the parent revision: a new Commit for \<^verbatim>\<open>parent_ids[0]\<close> and a new
  File, both built before the call. (The list is not empty wherever this is reached.)
\<close>

definition fetchParent :: "env \<Rightarrow> Commit \<Rightarrow> string \<Rightarrow> CommitData \<Rightarrow> state \<Rightarrow> nat promise \<times> state" where
  "fetchParent E commit filename commitData s =
     (let parent = \<lparr>commit_id = parent_ids commitData ! 0, commit_project = getProject commit\<rparr>;
          (oldFile, s1) = alloc (new_File filename (getProject commit)) s
      in fetchFileContent E parent oldFile s1)"

text \<open>The handler of the current fetch, \<^verbatim>\<open>(newFile) => ...\<close>.\<close>

definition onNewFile :: "env \<Rightarrow> Commit \<Rightarrow> string \<Rightarrow> string \<Rightarrow> CommitData \<Rightarrow> nat \<Rightarrow> state \<Rightarrow> nat promise \<times> state" where
  "onNewFile E commit filename status commitData newFile s =
     (if status = ''addition'' \<or> length (parent_ids commitData) = 0 then
        detectedAddition E commit filename newFile s
      else
        on_resolved (fetchParent E commit filename commitData s)
          (onOldFile E commit filename status newFile))"

text \<open>The handler of the metadata query, \<^verbatim>\<open>(commitData) => ...\<close>.\<close>

definition onCommitData :: "env \<Rightarrow> Commit \<Rightarrow> string \<Rightarrow> string \<Rightarrow> nat \<Rightarrow> CommitData option \<Rightarrow> state \<Rightarrow> nat promise \<times> state" where
  "onCommitData E commit filename status file response s =
     (case response of
        None \<Rightarrow> (Rejected (tagged filename commit ''error loading commit data''), s)
      | Some commitData \<Rightarrow>
          if length (parent_ids commitData) > 1 then
            (Rejected (tagged filename commit ''commit was a merge''), s)
          else if strict_neq (getMonth (now E)) (getMonth (created_at commitData)) then
            (Rejected (tagged filename commit ''commit was not made this month''), s)
          else
            on_resolved (fetchFileContent E commit file s)
              (onNewFile E commit filename status commitData))"

text \<open>
  \<^verbatim>\<open>diffFile(commit, filename, status)\<close>. The metadata query has no failure handler:
  when it rejects, or never settles, the outer promise stays pending.
\<close>

definition diffFile :: "env \<Rightarrow> Commit \<Rightarrow> string \<Rightarrow> string \<Rightarrow> state \<Rightarrow> nat promise \<times> state" where
  "diffFile E commit filename status s =
     (let (file, s1) = alloc (new_File filename (getProject commit)) s
      in if isIgnored E (getName (heap s1 file)) \<or> getSkill E (getName (heap s1 file)) = None then
           (Rejected (tagged filename commit ''ignored or unskilled file''), s1)
         else
           (let pid = project_id (getProject commit);
                s2 = emit (QueryCommit pid (getID commit)) s1
            in on_resolved (query (gotCommit E pid (getID commit)), s2)
                 (onCommitData E commit filename status file)))"

subsection \<open>The variant in src/gitlab.js\<close>

text \<open>
  The second variant rejects a commit without parents together with missing metadata,
  takes the addition branch for status \<^verbatim>\<open>addition\<close> only, the removal branch for
  status \<^verbatim>\<open>removal\<close> only, and computes the diff otherwise without looking at the
  contents first.
\<close>

definition onOldFile_src :: "env \<Rightarrow> Commit \<Rightarrow> string \<Rightarrow> string \<Rightarrow> nat \<Rightarrow> nat \<Rightarrow> state \<Rightarrow> nat promise \<times> state" where
  "onOldFile_src E commit filename status newFile oldFile s =
     (if status = ''removal'' then
        detectedRemoval E commit filename oldFile s
      else calculateDiff E commit filename newFile oldFile s)"

definition onNewFile_src :: "env \<Rightarrow> Commit \<Rightarrow> string \<Rightarrow> string \<Rightarrow> CommitData \<Rightarrow> nat \<Rightarrow> state \<Rightarrow> nat promise \<times> state" where
  "onNewFile_src E commit filename status commitData newFile s =
     (if status = ''addition'' then
        detectedAddition E commit filename newFile s
      else
        on_resolved (fetchParent E commit filename commitData s)
          (onOldFile_src E commit filename status newFile))"

definition onCommitData_src :: "env \<Rightarrow> Commit \<Rightarrow> string \<Rightarrow> string \<Rightarrow> nat \<Rightarrow> CommitData option \<Rightarrow> state \<Rightarrow> nat promise \<times> state" where
  "onCommitData_src E commit filename status file response s =
     (case response of
        None \<Rightarrow> (Rejected (tagged filename commit ''error loading parent commit''), s)
      | Some commitData \<Rightarrow>
          if length (parent_ids commitData) = 0 then
            (Rejected (tagged filename commit ''error loading parent commit''), s)
          else if length (parent_ids commitData) > 1 then
            (Rejected (tagged filename commit ''commit was a merge''), s)
          else if strict_neq (getMonth (now E)) (getMonth (created_at commitData)) then
            (Rejected (tagged filename commit ''commit was not made this month''), s)
          else
            on_resolved (fetchFileContent E commit file s)
              (onNewFile_src E commit filename status commitData))"

definition diffFile_src :: "env \<Rightarrow> Commit \<Rightarrow> string \<Rightarrow> string \<Rightarrow> state \<Rightarrow> nat promise \<times> state" where
  "diffFile_src E commit filename status s =
     (let (file, s1) = alloc (new_File filename (getProject commit)) s
      in if isIgnored E (getName (heap s1 file)) \<or> getSkill E (getName (heap s1 file)) = None then
           (Rejected (tagged filename commit ''ignored or unskilled file''), s1)
         else
           (let pid = project_id (getProject commit);
                s2 = emit (QueryCommit pid (getID commit)) s1
            in on_resolved (query (gotCommit E pid (getID commit)), s2)
                 (onCommitData_src E commit filename status file)))"

section \<open>Notions used to state the properties\<close>

text \<open>
  File Reference validation passes: the path is not ignored and has a skill (the negation
  of the first test of \<open>diffFile\<close>).
\<close>

definition valid_file :: "env \<Rightarrow> string \<Rightarrow> bool" where
  "valid_file E filename = (\<not> isIgnored E filename \<and> getSkill E filename \<noteq> None)"

text \<open>The month test of \<open>diffFile\<close> lets the commit through.\<close>

definition in_window :: "env \<Rightarrow> CommitData \<Rightarrow> bool" where
  "in_window E cd = (\<not> strict_neq (getMonth (now E)) (getMonth (created_at cd)))"

text \<open>
  A content request is answered in a way that lets \<open>fetchFileContent\<close> resolve: with a
  parsed body, or with an HTTP error whose body the failure handler can parse.
\<close>

fun settles :: "env \<Rightarrow> string option got_result \<Rightarrow> bool" where
  "settles E (Body v) = True"
| "settles E (HTTPError b) = (jsonMessage E b \<noteq> None)"
| "settles E BadBody = False"
| "settles E RequestError = False"

text \<open>
  The content a new File carries after such a request: the payload's content, or the
  Absent marker.
\<close>

fun fetched :: "string option got_result \<Rightarrow> string option" where
  "fetched (Body v) = v"
| "fetched (HTTPError b) = None"
| "fetched BadBody = None"
| "fetched RequestError = None"

text \<open>
  What a caller sees of a settled run: the File the promise resolved with (its name,
  project, content and delta), or the reason of the rejection.
\<close>

fun outcome :: "nat promise \<times> state \<Rightarrow> File promise" where
  "outcome (p, s) = map_promise (heap s) p"

subsection \<open>A concrete remote repository\<close>

text \<open>
  Project 7 on the evaluation date of November 2026. The file \<^verbatim>\<open>lib/a.js\<close> reads
  "a, b" (two lines) at revision \<^verbatim>\<open>c0\<close> and "a, b, c" (three lines) at its child
  \<^verbatim>\<open>c1\<close>; \<^verbatim>\<open>lib/same.js\<close> is unchanged between the two; \<^verbatim>\<open>lib/new.js\<close>
  exists at \<^verbatim>\<open>c1\<close> only, \<^verbatim>\<open>lib/gone.js\<close> at \<^verbatim>\<open>c0\<close> only; the request for
  \<^verbatim>\<open>lib/proxy.js\<close> is answered by a gateway with an HTML page, and so is the request
  for \<^verbatim>\<open>lib/flaky.js\<close> at \<^verbatim>\<open>c0\<close>, a file of three lines at \<^verbatim>\<open>c1\<close>. Further commits:
  \<^verbatim>\<open>root\<close> has no parent, \<^verbatim>\<open>merge\<close> has two, \<^verbatim>\<open>october\<close> was created a
  month earlier and \<^verbatim>\<open>lastyear\<close> in November 2025.
\<close>

definition body404 :: string where
  \<open>body404 = ''{"message":"404 File Not Found"}''\<close>

definition text_ab :: string where
  "text_ab = [CHR ''a'', CHR 0x0A, CHR ''b'', CHR 0x0A]"

definition text_abc :: string where
  "text_abc = [CHR ''a'', CHR 0x0A, CHR ''b'', CHR 0x0A, CHR ''c'', CHR 0x0A]"

definition example_project :: Project where
  "example_project =
     \<lparr>project_id = 7, project_name = ''devrpg'', project_description = [],
      project_namespace = ''efarem'', project_url = ''http://gitlab.example/efarem/devrpg'',
      project_path = ''efarem/devrpg'', project_tags = []\<rparr>"

definition example_commit :: "string \<Rightarrow> Commit" where
  "example_commit revision = \<lparr>commit_id = revision, commit_project = example_project\<rparr>"

definition example_gotCommit :: "nat \<Rightarrow> string \<Rightarrow> CommitData option got_result" where
  "example_gotCommit pid revision =
     (if revision = ''c1'' then Body (Some \<lparr>parent_ids = [''c0''], created_at = Date 2026 10\<rparr>)
      else if revision = ''root'' then Body (Some \<lparr>parent_ids = [], created_at = Date 2026 10\<rparr>)
      else if revision = ''merge'' then
        Body (Some \<lparr>parent_ids = [''c0'', ''b0''], created_at = Date 2026 10\<rparr>)
      else if revision = ''october'' then
        Body (Some \<lparr>parent_ids = [''c0''], created_at = Date 2026 9\<rparr>)
      else if revision = ''lastyear'' then
        Body (Some \<lparr>parent_ids = [''c0''], created_at = Date 2025 10\<rparr>)
      else HTTPError body404)"

definition example_gotFile :: "nat \<Rightarrow> string \<Rightarrow> string \<Rightarrow> string option got_result" where
  "example_gotFile pid path revision =
     (if path = ''lib/a.js'' then
        (if revision = ''c0'' then Body (Some ''YQpiCg=='') else Body (Some ''YQpiCmMK''))
      else if path = ''lib/same.js'' then Body (Some ''YQpiCg=='')
      else if path = ''lib/new.js'' \<and> revision = ''c1'' then Body (Some ''YQpiCmMK'')
      else if path = ''lib/gone.js'' \<and> revision = ''c0'' then Body (Some ''YQpiCg=='')
      else if path = ''lib/proxy.js'' then HTTPError ''<html>502 Bad Gateway</html>''
      else if path = ''lib/flaky.js'' then
        (if revision = ''c1'' then Body (Some ''YQpiCmMK'')
         else HTTPError ''<html>502 Bad Gateway</html>'')
      else HTTPError body404)"

definition example_atob :: "string \<Rightarrow> string" where
  "example_atob c =
     (if c = ''YQpiCg=='' then text_ab else if c = ''YQpiCmMK'' then text_abc else [])"

definition example_structuredPatch :: "string \<Rightarrow> string \<Rightarrow> string \<Rightarrow> string \<Rightarrow> hunk list" where
  "example_structuredPatch oldName newName oldText newText =
     (if oldText = text_ab \<and> newText = text_abc then [\<lparr>oldLines = 2, newLines = 3\<rparr>]
      else [])"

definition example_env :: env where
  "example_env =
     \<lparr>gotCommit = example_gotCommit,
      gotFile = example_gotFile,
      now = Date 2026 10,
      atob = example_atob,
      structuredPatch = example_structuredPatch,
      jsonMessage = (\<lambda>b. if b = body404 then Some ''404 File Not Found'' else None),
      isIgnored = (\<lambda>path. path = ''dist/bundle.js''),
      getSkill = (\<lambda>path. if path = ''README'' then None else Some ''javascript''),
      lineCount = (\<lambda>c. if c = Some ''YQpiCg=='' then 2 else if c = Some ''YQpiCmMK'' then 3 else 0)\<rparr>"

text \<open>
  A store whose object 0 is a new File for \<^verbatim>\<open>lib/a.js\<close> and whose other objects are
  new Files for \<^verbatim>\<open>lib/new.js\<close>; nothing has happened yet.
\<close>

definition example_state :: state where
  "example_state =
     \<lparr>heap = (\<lambda>r. if r = 0 then new_File ''lib/a.js'' example_project
                  else new_File ''lib/new.js'' example_project),
      fresh = 2,
      trace = []\<rparr>"

section \<open>Auxiliary facts\<close>

lemmas file_defs = new_File_def setContent_def setAdditions_def getLines_def
lemmas state_defs = alloc_def update_def emit_def emitted_def
lemmas stage_defs = diffFile_def onCommitData_def onNewFile_def fetchParent_def onOldFile_def
  calculateDiff_def detectedAddition_def detectedRemoval_def fetchFileContent_def on_resolved_def
lemmas src_defs = diffFile_src_def onCommitData_src_def onNewFile_src_def onOldFile_src_def
lemmas example_defs = example_env_def example_gotCommit_def example_gotFile_def example_atob_def
  example_structuredPatch_def example_commit_def example_project_def example_state_def
  body404_def text_ab_def text_abc_def

text \<open>The loop over the hunks adds up the differences and touches nothing else.\<close>

lemma foldl_addAdditions:
  "additions (foldl (\<lambda>f h. addAdditions f (newLines h - oldLines h)) f hs)
     = additions f + (\<Sum>h\<leftarrow>hs. newLines h - oldLines h)"
  by (induction hs arbitrary: f) (simp_all add: addAdditions_def)

lemma foldl_addAdditions_frame:
  "content (foldl (\<lambda>f h. addAdditions f (newLines h - oldLines h)) f hs) = content f"
  "name (foldl (\<lambda>f h. addAdditions f (newLines h - oldLines h)) f hs) = name f"
  "project (foldl (\<lambda>f h. addAdditions f (newLines h - oldLines h)) f hs) = project f"
  by (induction hs arbitrary: f) (simp_all add: addAdditions_def)

section \<open>fetchFileContent\<close>

text \<open>
  C10: for every call of fetchFileContent, the value it resolves with is the very File
  object it was given (\<open>obj\<close>), and of that object only the content may have changed: name and
  project (and the delta) are as before, in the success and in the failure branch alike.
  No other object of the store is touched and none is created.
\<close>

theorem fetchFileContent_same_object:
  assumes "fetchFileContent E commit obj s = (p, s')"
  shows "(p = Resolved obj \<or> p = Pending)
       \<and> name (heap s' obj) = name (heap s obj)
       \<and> project (heap s' obj) = project (heap s obj)
       \<and> additions (heap s' obj) = additions (heap s obj)
       \<and> (\<forall>r. r \<noteq> obj \<longrightarrow> heap s' r = heap s r)
       \<and> fresh s' = fresh s"
  using assms
  by (cases "gotFile E (project_id (getProject commit)) (getName (heap s obj)) (getID commit)")
     (auto simp: fetchFileContent_def Let_def state_defs file_defs split: option.splits)

text \<open>
  The property at work on the success branch (object 0, \<^verbatim>\<open>lib/a.js\<close> at \<^verbatim>\<open>c1\<close>)
  and on the failure branch (object 1, \<^verbatim>\<open>lib/new.js\<close> at \<^verbatim>\<open>c0\<close>, not found).
\<close>

theorem fetchFileContent_same_object_witness:
  "fst (fetchFileContent example_env (example_commit ''c1'') 0 example_state) = Resolved 0
   \<and> name (heap (snd (fetchFileContent example_env (example_commit ''c1'') 0 example_state)) 0)
       = ''lib/a.js''
   \<and> heap (snd (fetchFileContent example_env (example_commit ''c1'') 0 example_state)) 1
       = heap example_state 1
   \<and> fst (fetchFileContent example_env (example_commit ''c0'') 1 example_state) = Resolved 1
   \<and> name (heap (snd (fetchFileContent example_env (example_commit ''c0'') 1 example_state)) 1)
       = ''lib/new.js''
   \<and> heap (snd (fetchFileContent example_env (example_commit ''c0'') 1 example_state)) 0
       = heap example_state 0"
  using
    fetchFileContent_same_object [where E = example_env and commit = "example_commit ''c1''"
      and obj = 0 and s = example_state
      and p = "fst (fetchFileContent example_env (example_commit ''c1'') 0 example_state)"
      and s' = "snd (fetchFileContent example_env (example_commit ''c1'') 0 example_state)"]
    fetchFileContent_same_object [where E = example_env and commit = "example_commit ''c0''"
      and obj = 1 and s = example_state
      and p = "fst (fetchFileContent example_env (example_commit ''c0'') 1 example_state)"
      and s' = "snd (fetchFileContent example_env (example_commit ''c0'') 1 example_state)"]
  by (simp add: fetchFileContent_def Let_def state_defs file_defs example_defs)

text \<open>
  The claim that a successful fetch attaches the decoded content fails: the File carries
  the payload as the service sent it. At \<^verbatim>\<open>c1\<close> the payload of \<^verbatim>\<open>lib/a.js\<close>
  is the base64 text \<^verbatim>\<open>YQpiCmMK\<close>, which decodes to the three lines a, b, c; the
  File holds the former.
\<close>

theorem fetchFileContent_content_not_decoded:
  "fst (fetchFileContent example_env (example_commit ''c1'') 0 example_state) = Resolved 0
   \<and> content (heap (snd (fetchFileContent example_env (example_commit ''c1'') 0 example_state)) 0)
       = Some ''YQpiCmMK''
   \<and> atob example_env ''YQpiCmMK'' = text_abc
   \<and> content (heap (snd (fetchFileContent example_env (example_commit ''c1'') 0 example_state)) 0)
       \<noteq> Some (atob example_env ''YQpiCmMK'')"
  by (simp add: fetchFileContent_def Let_def state_defs file_defs example_defs)

text \<open>
  C7, as the code has it: fetchFileContent never rejects. When the query resolves with a
  payload, it resolves with the File carrying the payload's content exactly as the service
  returned it (not decoded); when the query resolves with an empty response, it resolves
  with the File unchanged. When the query rejects with an error body that parses as JSON,
  it resolves with the File unchanged (content Absent if it was Absent before the call)
  after emitting one diagnostic log entry; the error is not passed on to the caller. In
  each case exactly one request is issued.
\<close>

theorem fetchFileContent_never_rejects:
  assumes "fetchFileContent E commit obj s = (p, s')"
    and "gotFile E (project_id (getProject commit)) (getName (heap s obj)) (getID commit) = reply"
    and "q = QueryFile (project_id (getProject commit)) (getName (heap s obj)) (getID commit)"
  shows "(\<forall>e. p \<noteq> Rejected e)
       \<and> (\<forall>c. reply = Body (Some c) \<longrightarrow>
             p = Resolved obj \<and> content (heap s' obj) = Some c \<and> emitted s s' = [q])
       \<and> (reply = Body None \<longrightarrow>
             p = Resolved obj \<and> heap s' obj = heap s obj \<and> emitted s s' = [q])
       \<and> (\<forall>b m. reply = HTTPError b \<and> jsonMessage E b = Some m \<longrightarrow>
             p = Resolved obj \<and> heap s' obj = heap s obj
             \<and> emitted s s' = [q, Log (fetch_error_line (heap s obj) commit m)])"
  using assms
  by (cases "gotFile E (project_id (getProject commit)) (getName (heap s obj)) (getID commit)")
     (auto simp: fetchFileContent_def Let_def state_defs file_defs split: option.splits)

theorem fetchFileContent_never_rejects_witness:
  "gotFile example_env 7 ''lib/a.js'' ''c1'' = Body (Some ''YQpiCmMK'')
   \<and> fst (fetchFileContent example_env (example_commit ''c1'') 0 example_state) = Resolved 0
   \<and> content (heap (snd (fetchFileContent example_env (example_commit ''c1'') 0 example_state)) 0)
       = Some ''YQpiCmMK''
   \<and> gotFile example_env 7 ''lib/new.js'' ''c0'' = HTTPError body404
   \<and> jsonMessage example_env body404 = Some ''404 File Not Found''
   \<and> fst (fetchFileContent example_env (example_commit ''c0'') 1 example_state) = Resolved 1
   \<and> content (heap (snd (fetchFileContent example_env (example_commit ''c0'') 1 example_state)) 1)
       = None
   \<and> emitted example_state
        (snd (fetchFileContent example_env (example_commit ''c0'') 1 example_state))
       = [QueryFile 7 ''lib/new.js'' ''c0'',
          Log ''lib/new.js @ #c0: error loading file content - 404 File Not Found'']"
  using
    fetchFileContent_never_rejects [where E = example_env and commit = "example_commit ''c1''"
      and obj = 0 and s = example_state
      and p = "fst (fetchFileContent example_env (example_commit ''c1'') 0 example_state)"
      and s' = "snd (fetchFileContent example_env (example_commit ''c1'') 0 example_state)"
      and reply = "Body (Some ''YQpiCmMK'')" and q = "QueryFile 7 ''lib/a.js'' ''c1''"]
    fetchFileContent_never_rejects [where E = example_env and commit = "example_commit ''c0''"
      and obj = 1 and s = example_state
      and p = "fst (fetchFileContent example_env (example_commit ''c0'') 1 example_state)"
      and s' = "snd (fetchFileContent example_env (example_commit ''c0'') 1 example_state)"
      and reply = "HTTPError body404" and q = "QueryFile 7 ''lib/new.js'' ''c0''"]
  by (simp add: fetch_error_line_def file_defs example_defs)

text \<open>
  What the amended statement leaves open: when the error body is not JSON (a gateway's HTML
  page), or when there is no response at all, the promise is never settled.
\<close>

lemma fetchFileContent_unparsable_error:
  assumes "gotFile E (project_id (getProject commit)) (getName (heap s obj)) (getID commit)
             = HTTPError b"
    and "jsonMessage E b = None"
  shows "fst (fetchFileContent E commit obj s) = Pending"
  using assms by (simp add: fetchFileContent_def Let_def)

lemma fetchFileContent_no_response:
  assumes "gotFile E (project_id (getProject commit)) (getName (heap s obj)) (getID commit)
             = RequestError"
  shows "fst (fetchFileContent E commit obj s) = Pending"
  using assms by (simp add: fetchFileContent_def Let_def)

lemma fetchFileContent_gateway_page:
  "fst (fetchFileContent example_env (example_commit ''c1'') 0
         (update 0 (\<lambda>f. new_File ''lib/proxy.js'' example_project) example_state)) = Pending"
  by (simp add: fetchFileContent_def Let_def state_defs file_defs example_defs)

section \<open>diffFile: rejections\<close>

text \<open>
  C8: for every file path that is on the ignore list or has no recognised skill, diffFile
  rejects with a reason that ends in "ignored or unskilled file" (after the tag made of
  the file name and the commit identifier), and the run issues no remote query at all:
  nothing is emitted, neither the metadata request nor a content request.
\<close>

theorem diffFile_invalid_file_rejected:
  assumes "isIgnored E filename \<or> getSkill E filename = None"
    and "diffFile E commit filename status s = (p, s')"
  shows "p = Rejected (filename @ '' @ #'' @ getID commit @ '': ignored or unskilled file'')
       \<and> emitted s s' = []"
  using assms by (auto simp: diffFile_def state_defs new_File_def tagged_def)

theorem diffFile_invalid_file_rejected_witness:
  "isIgnored example_env ''dist/bundle.js''
   \<and> fst (diffFile example_env (example_commit ''c1'') ''dist/bundle.js'' ''addition'' example_state)
       = Rejected ''dist/bundle.js @ #c1: ignored or unskilled file''
   \<and> getSkill example_env ''README'' = None
   \<and> fst (diffFile example_env (example_commit ''c1'') ''README'' ''removal'' example_state)
       = Rejected ''README @ #c1: ignored or unskilled file''
   \<and> emitted example_state
        (snd (diffFile example_env (example_commit ''c1'') ''README'' ''removal'' example_state)) = []"
  using
    diffFile_invalid_file_rejected [where E = example_env and filename = "''dist/bundle.js''"
      and commit = "example_commit ''c1''" and status = "''addition''" and s = example_state
      and p = "fst (diffFile example_env (example_commit ''c1'') ''dist/bundle.js'' ''addition''
                 example_state)"
      and s' = "snd (diffFile example_env (example_commit ''c1'') ''dist/bundle.js'' ''addition''
                  example_state)"]
    diffFile_invalid_file_rejected [where E = example_env and filename = "''README''"
      and commit = "example_commit ''c1''" and status = "''removal''" and s = example_state
      and p = "fst (diffFile example_env (example_commit ''c1'') ''README'' ''removal''
                 example_state)"
      and s' = "snd (diffFile example_env (example_commit ''c1'') ''README'' ''removal''
                  example_state)"]
  by (simp add: example_env_def example_commit_def)

text \<open>
  C5: for every commit whose metadata carries more than one parent revision identifier,
  diffFile rejects with the reason "commit was a merge" (tagged with the file name and the
  commit identifier), whatever the status argument and whatever the remote holds as file
  content; the only request of the run is the one for the metadata, so no content is
  fetched. (The metadata is loaded only for a path that passed validation.)
\<close>

theorem diffFile_merge_rejected:
  assumes "valid_file E filename"
    and "gotCommit E (project_id (getProject commit)) (getID commit) = Body (Some cd)"
    and "length (parent_ids cd) > 1"
    and "diffFile E commit filename status s = (p, s')"
  shows "p = Rejected (filename @ '' @ #'' @ getID commit @ '': commit was a merge'')
       \<and> emitted s s' = [QueryCommit (project_id (getProject commit)) (getID commit)]"
  using assms
  by (auto simp: diffFile_def onCommitData_def on_resolved_def Let_def state_defs new_File_def
        valid_file_def tagged_def)

theorem diffFile_merge_rejected_witness:
  "valid_file example_env ''lib/a.js''
   \<and> gotCommit example_env 7 ''merge''
       = Body (Some \<lparr>parent_ids = [''c0'', ''b0''], created_at = Date 2026 10\<rparr>)
   \<and> fst (diffFile example_env (example_commit ''merge'') ''lib/a.js'' ''modification'' example_state)
       = Rejected ''lib/a.js @ #merge: commit was a merge''
   \<and> emitted example_state
        (snd (diffFile example_env (example_commit ''merge'') ''lib/a.js'' ''modification''
               example_state))
       = [QueryCommit 7 ''merge'']"
  using
    diffFile_merge_rejected [where E = example_env and filename = "''lib/a.js''"
      and commit = "example_commit ''merge''" and status = "''modification''"
      and cd = "\<lparr>parent_ids = [''c0'', ''b0''], created_at = Date 2026 10\<rparr>"
      and s = example_state
      and p = "fst (diffFile example_env (example_commit ''merge'') ''lib/a.js'' ''modification''
                 example_state)"
      and s' = "snd (diffFile example_env (example_commit ''merge'') ''lib/a.js'' ''modification''
                  example_state)"]
  by (simp add: valid_file_def example_env_def example_commit_def example_gotCommit_def
        example_project_def)

text \<open>
  The month test compares the month indices alone. When they differ (or one date is
  invalid) a commit with at most one parent is rejected after the metadata request and
  before any content request.
\<close>

lemma diffFile_other_month_rejected:
  assumes "valid_file E filename"
    and "gotCommit E (project_id (getProject commit)) (getID commit) = Body (Some cd)"
    and "length (parent_ids cd) \<le> 1"
    and "strict_neq (getMonth (now E)) (getMonth (created_at cd))"
    and "diffFile E commit filename status s = (p, s')"
  shows "p = Rejected (filename @ '' @ #'' @ getID commit @ '': commit was not made this month'')
       \<and> emitted s s' = [QueryCommit (project_id (getProject commit)) (getID commit)]"
  using assms
  by (auto simp: diffFile_def onCommitData_def on_resolved_def Let_def state_defs new_File_def
        valid_file_def tagged_def)

lemma diffFile_october_rejected:
  "fst (diffFile example_env (example_commit ''october'') ''lib/a.js'' ''addition'' example_state)
     = Rejected ''lib/a.js @ #october: commit was not made this month''"
  by (simp add: diffFile_def onCommitData_def on_resolved_def Let_def state_defs new_File_def
        tagged_def example_defs)

text \<open>
  C6: a commit created in a calendar month other than that of the evaluation time is to be
  rejected with "commit was not made this month", the same month of another year
  included. The code lets such a commit through: commit \<^verbatim>\<open>lastyear\<close> was created in
  November 2025, the evaluation time is November 2026, the two dates are not in the same
  calendar month, and diffFile fetches the content and resolves with a delta of 3.
\<close>

theorem diffFile_same_month_other_year_accepted:
  "gotCommit example_env 7 ''lastyear''
     = Body (Some \<lparr>parent_ids = [''c0''], created_at = Date 2025 10\<rparr>)
   \<and> now example_env = Date 2026 10
   \<and> \<not> same_calendar_month (now example_env) (Date 2025 10)
   \<and> fst (diffFile example_env (example_commit ''lastyear'') ''lib/a.js'' ''addition'' example_state)
       = Resolved 2
   \<and> additions (heap (snd (diffFile example_env (example_commit ''lastyear'') ''lib/a.js''
         ''addition'' example_state)) 2) = 3
   \<and> filter is_QueryFile (emitted example_state
        (snd (diffFile example_env (example_commit ''lastyear'') ''lib/a.js'' ''addition''
               example_state)))
       = [QueryFile 7 ''lib/a.js'' ''lastyear'']"
  by (simp add: stage_defs Let_def state_defs file_defs tagged_def example_defs)

section \<open>diffFile: the resolving branches\<close>

text \<open>
  A content request that is answered neither with a body nor with an error whose body
  parses as JSON leaves \<open>fetchFileContent\<close> unsettled, and \<open>diffFile\<close> with it: on the
  current revision for every status, on the parent revision for every status but addition.
\<close>

lemma diffFile_unsettled_current_fetch:
  assumes "valid_file E filename"
    and "gotCommit E (project_id (getProject commit)) (getID commit) = Body (Some cd)"
    and "length (parent_ids cd) \<le> 1" and "in_window E cd"
    and "\<not> settles E (gotFile E (project_id (getProject commit)) filename (getID commit))"
  shows "fst (diffFile E commit filename status s) = Pending"
  using assms
  by (cases "gotFile E (project_id (getProject commit)) filename (getID commit)")
     (auto simp: diffFile_def onCommitData_def fetchFileContent_def on_resolved_def Let_def
        state_defs file_defs valid_file_def in_window_def)

lemma diffFile_unsettled_parent_fetch:
  assumes "valid_file E filename"
    and "gotCommit E (project_id (getProject commit)) (getID commit) = Body (Some cd)"
    and "parent_ids cd = [parent]" and "in_window E cd"
    and "status \<noteq> ''addition''"
    and "settles E (gotFile E (project_id (getProject commit)) filename (getID commit))"
    and "\<not> settles E (gotFile E (project_id (getProject commit)) filename parent)"
  shows "fst (diffFile E commit filename status s) = Pending"
  using assms
  by (cases "gotFile E (project_id (getProject commit)) filename (getID commit)";
      cases "gotFile E (project_id (getProject commit)) filename parent")
     (auto simp: diffFile_def onCommitData_def onNewFile_def fetchParent_def
        fetchFileContent_def on_resolved_def Let_def state_defs file_defs valid_file_def
        in_window_def split: option.splits)

text \<open>
  C2: for every eligible commit with status addition (or without a parent) diffFile is to
  resolve with a delta equal to the total line count of the current file's content. The
  code does not on the following input: the commit \<^verbatim>\<open>c1\<close> is eligible, the path
  \<^verbatim>\<open>lib/proxy.js\<close> is valid, the status is addition, and the content request is
  answered by a gateway with an HTML page. The failure handler of fetchFileContent throws
  on parsing that page, and the promise of diffFile is never settled: it neither resolves
  nor rejects.
\<close>

theorem diffFile_addition_never_settles:
  "valid_file example_env ''lib/proxy.js''
   \<and> gotCommit example_env 7 ''c1''
       = Body (Some \<lparr>parent_ids = [''c0''], created_at = Date 2026 10\<rparr>)
   \<and> in_window example_env \<lparr>parent_ids = [''c0''], created_at = Date 2026 10\<rparr>
   \<and> gotFile example_env 7 ''lib/proxy.js'' ''c1'' = HTTPError ''<html>502 Bad Gateway</html>''
   \<and> jsonMessage example_env ''<html>502 Bad Gateway</html>'' = None
   \<and> fst (diffFile example_env (example_commit ''c1'') ''lib/proxy.js'' ''addition''
         example_state) = Pending
   \<and> emitted example_state
        (snd (diffFile example_env (example_commit ''c1'') ''lib/proxy.js'' ''addition''
               example_state))
       = [QueryCommit 7 ''c1'', QueryFile 7 ''lib/proxy.js'' ''c1'']"
  by (simp add: stage_defs Let_def state_defs file_defs valid_file_def in_window_def tagged_def
        example_defs)

text \<open>
  Where the current fetch does settle, the addition branch is as described: for every
  eligible commit (at most one parent, inside the window), if the status is addition, or
  the commit has no parent (whatever the status), diffFile resolves with the current File,
  whose delta is the total line count of its content. The run issues one content request,
  for the current revision, and never calls the diff primitive: the parent revision is not
  fetched.
\<close>

lemma diffFile_addition_or_initial_commit:
  assumes "valid_file E filename"
    and "gotCommit E (project_id (getProject commit)) (getID commit) = Body (Some cd)"
    and "length (parent_ids cd) \<le> 1" and "in_window E cd"
    and "status = ''addition'' \<or> parent_ids cd = []"
    and "settles E (gotFile E (project_id (getProject commit)) filename (getID commit))"
    and "diffFile E commit filename status s = (p, s')"
  shows "p = Resolved (fresh s)
       \<and> name (heap s' (fresh s)) = filename
       \<and> content (heap s' (fresh s))
           = fetched (gotFile E (project_id (getProject commit)) filename (getID commit))
       \<and> additions (heap s' (fresh s)) = int (lineCount E (content (heap s' (fresh s))))
       \<and> filter is_QueryFile (emitted s s')
           = [QueryFile (project_id (getProject commit)) filename (getID commit)]
       \<and> filter is_Patch (emitted s s') = []"
  using assms
  by (cases "gotFile E (project_id (getProject commit)) filename (getID commit)")
     (auto simp: stage_defs Let_def state_defs file_defs valid_file_def in_window_def tagged_def
           split: option.splits)

text \<open>
  Status addition on the single-parent commit \<^verbatim>\<open>c1\<close>, and status modification on
  the initial commit \<^verbatim>\<open>root\<close>: three lines added in both runs.
\<close>

lemma diffFile_addition_or_initial_commit_witness:
  "valid_file example_env ''lib/a.js''
   \<and> in_window example_env \<lparr>parent_ids = [''c0''], created_at = Date 2026 10\<rparr>
   \<and> settles example_env (gotFile example_env 7 ''lib/a.js'' ''c1'')
   \<and> fst (diffFile example_env (example_commit ''c1'') ''lib/a.js'' ''addition'' example_state)
       = Resolved 2
   \<and> additions (heap (snd (diffFile example_env (example_commit ''c1'') ''lib/a.js''
         ''addition'' example_state)) 2) = 3
   \<and> gotCommit example_env 7 ''root''
       = Body (Some \<lparr>parent_ids = [], created_at = Date 2026 10\<rparr>)
   \<and> fst (diffFile example_env (example_commit ''root'') ''lib/a.js'' ''modification''
         example_state) = Resolved 2
   \<and> additions (heap (snd (diffFile example_env (example_commit ''root'') ''lib/a.js''
         ''modification'' example_state)) 2) = 3"
  using
    diffFile_addition_or_initial_commit [where E = example_env and filename = "''lib/a.js''"
      and commit = "example_commit ''c1''" and status = "''addition''"
      and cd = "\<lparr>parent_ids = [''c0''], created_at = Date 2026 10\<rparr>"
      and s = example_state
      and p = "fst (diffFile example_env (example_commit ''c1'') ''lib/a.js'' ''addition''
                 example_state)"
      and s' = "snd (diffFile example_env (example_commit ''c1'') ''lib/a.js'' ''addition''
                  example_state)"]
    diffFile_addition_or_initial_commit [where E = example_env and filename = "''lib/a.js''"
      and commit = "example_commit ''root''" and status = "''modification''"
      and cd = "\<lparr>parent_ids = [], created_at = Date 2026 10\<rparr>"
      and s = example_state
      and p = "fst (diffFile example_env (example_commit ''root'') ''lib/a.js'' ''modification''
                 example_state)"
      and s' = "snd (diffFile example_env (example_commit ''root'') ''lib/a.js'' ''modification''
                  example_state)"]
  by (simp add: valid_file_def in_window_def example_env_def example_commit_def
        example_gotCommit_def example_gotFile_def example_project_def example_state_def)




text \<open>
  C4: for every eligible single-parent commit with status modification and a non-Absent
  current content, if the parent-revision content is Absent, diffFile is to resolve with
  the current File and a delta equal to the total line count of the current content. The
  code does not on the following input: \<^verbatim>\<open>lib/flaky.js\<close> has three lines at the
  eligible commit \<^verbatim>\<open>c1\<close>, and the request for it at the parent \<^verbatim>\<open>c0\<close> fails
  with a gateway's HTML page, so that no parent content is obtained. The failure handler of
  fetchFileContent throws on parsing that page, and the promise of diffFile is never
  settled.
\<close>

theorem diffFile_absent_parent_never_settles:
  "valid_file example_env ''lib/flaky.js''
   \<and> gotCommit example_env 7 ''c1''
       = Body (Some \<lparr>parent_ids = [''c0''], created_at = Date 2026 10\<rparr>)
   \<and> in_window example_env \<lparr>parent_ids = [''c0''], created_at = Date 2026 10\<rparr>
   \<and> gotFile example_env 7 ''lib/flaky.js'' ''c1'' = Body (Some ''YQpiCmMK'')
   \<and> gotFile example_env 7 ''lib/flaky.js'' ''c0'' = HTTPError ''<html>502 Bad Gateway</html>''
   \<and> fetched (gotFile example_env 7 ''lib/flaky.js'' ''c0'') = None
   \<and> jsonMessage example_env ''<html>502 Bad Gateway</html>'' = None
   \<and> fst (diffFile example_env (example_commit ''c1'') ''lib/flaky.js'' ''modification''
         example_state) = Pending
   \<and> emitted example_state
        (snd (diffFile example_env (example_commit ''c1'') ''lib/flaky.js'' ''modification''
               example_state))
       = [QueryCommit 7 ''c1'', QueryFile 7 ''lib/flaky.js'' ''c1'',
          QueryFile 7 ''lib/flaky.js'' ''c0'']"
  by (simp add: stage_defs Let_def state_defs file_defs valid_file_def in_window_def tagged_def
        example_defs)

text \<open>
  Where the parent fetch does settle, with an empty response or an error whose body parses
  as JSON, the branch is as described: for every eligible single-parent commit with status
  modification and a non-Absent current content, diffFile treats the change as an
  addition: it resolves with the current File, whose delta is the total line count of the
  current content, and the diff primitive is never called.
\<close>

lemma diffFile_absent_parent_is_addition:
  assumes "valid_file E filename"
    and "gotCommit E (project_id (getProject commit)) (getID commit) = Body (Some cd)"
    and "parent_ids cd = [parent]" and "in_window E cd"
    and "status = ''modification''"
    and "gotFile E (project_id (getProject commit)) filename (getID commit)
           = Body (Some newContent)"
    and "settles E (gotFile E (project_id (getProject commit)) filename parent)"
    and "fetched (gotFile E (project_id (getProject commit)) filename parent) = None"
    and "diffFile E commit filename status s = (p, s')"
  shows "p = Resolved (fresh s)
       \<and> name (heap s' (fresh s)) = filename
       \<and> content (heap s' (fresh s)) = Some newContent
       \<and> additions (heap s' (fresh s)) = int (lineCount E (Some newContent))
       \<and> filter is_Patch (emitted s s') = []"
  using assms
  by (cases "gotFile E (project_id (getProject commit)) filename parent")
     (auto simp: stage_defs Let_def state_defs file_defs valid_file_def in_window_def tagged_def
           split: option.splits if_splits)

text \<open>\<^verbatim>\<open>lib/new.js\<close> has three lines at \<^verbatim>\<open>c1\<close> and does not exist at \<^verbatim>\<open>c0\<close>.\<close>

lemma diffFile_absent_parent_is_addition_witness:
  "valid_file example_env ''lib/new.js''
   \<and> gotFile example_env 7 ''lib/new.js'' ''c1'' = Body (Some ''YQpiCmMK'')
   \<and> settles example_env (gotFile example_env 7 ''lib/new.js'' ''c0'')
   \<and> fetched (gotFile example_env 7 ''lib/new.js'' ''c0'') = None
   \<and> fst (diffFile example_env (example_commit ''c1'') ''lib/new.js'' ''modification''
         example_state) = Resolved 2
   \<and> additions (heap (snd (diffFile example_env (example_commit ''c1'') ''lib/new.js''
         ''modification'' example_state)) 2) = 3"
  using
    diffFile_absent_parent_is_addition [where E = example_env and filename = "''lib/new.js''"
      and commit = "example_commit ''c1''" and status = "''modification''" and parent = "''c0''"
      and cd = "\<lparr>parent_ids = [''c0''], created_at = Date 2026 10\<rparr>"
      and newContent = "''YQpiCmMK''" and s = example_state
      and p = "fst (diffFile example_env (example_commit ''c1'') ''lib/new.js'' ''modification''
                 example_state)"
      and s' = "snd (diffFile example_env (example_commit ''c1'') ''lib/new.js'' ''modification''
                  example_state)"]
  by (simp add: valid_file_def in_window_def example_env_def example_commit_def
        example_gotCommit_def example_gotFile_def example_project_def example_state_def
        body404_def)

text \<open>
  C1: for every true modification (status modification, exactly one parent, current and
  parent content both non-Absent) diffFile decodes both contents, calls the diff primitive
  once on the decoded old and new text, and resolves with the current File, whose delta is
  the sum over all hunks, in order, of the new line count minus the old line count; with
  no hunk at all the delta is exactly 0.
\<close>

theorem diffFile_true_modification:
  assumes "valid_file E filename"
    and "gotCommit E (project_id (getProject commit)) (getID commit) = Body (Some cd)"
    and "parent_ids cd = [parent]" and "in_window E cd"
    and "status = ''modification''"
    and "gotFile E (project_id (getProject commit)) filename (getID commit)
           = Body (Some newContent)"
    and "gotFile E (project_id (getProject commit)) filename parent = Body (Some oldContent)"
    and "hunks = structuredPatch E filename filename (atob E oldContent) (atob E newContent)"
    and "diffFile E commit filename status s = (p, s')"
  shows "p = Resolved (fresh s)
       \<and> name (heap s' (fresh s)) = filename
       \<and> content (heap s' (fresh s)) = Some newContent
       \<and> additions (heap s' (fresh s)) = (\<Sum>h\<leftarrow>hunks. newLines h - oldLines h)
       \<and> (hunks = [] \<longrightarrow> additions (heap s' (fresh s)) = 0)
       \<and> filter is_Patch (emitted s s')
           = [Patch filename filename (atob E oldContent) (atob E newContent)]"
  using assms
  by (auto simp: stage_defs Let_def state_defs file_defs valid_file_def in_window_def tagged_def
        foldl_addAdditions foldl_addAdditions_frame
           split: option.splits if_splits)

text \<open>
  \<^verbatim>\<open>lib/a.js\<close> grows from two lines to three: one hunk, delta 1.
  \<^verbatim>\<open>lib/same.js\<close> is the same on both sides: no hunk, delta 0.
\<close>

theorem diffFile_true_modification_witness:
  "valid_file example_env ''lib/a.js''
   \<and> gotFile example_env 7 ''lib/a.js'' ''c1'' = Body (Some ''YQpiCmMK'')
   \<and> gotFile example_env 7 ''lib/a.js'' ''c0'' = Body (Some ''YQpiCg=='')
   \<and> structuredPatch example_env ''lib/a.js'' ''lib/a.js'' text_ab text_abc
       = [\<lparr>oldLines = 2, newLines = 3\<rparr>]
   \<and> fst (diffFile example_env (example_commit ''c1'') ''lib/a.js'' ''modification''
         example_state) = Resolved 2
   \<and> additions (heap (snd (diffFile example_env (example_commit ''c1'') ''lib/a.js''
         ''modification'' example_state)) 2) = 1
   \<and> structuredPatch example_env ''lib/same.js'' ''lib/same.js'' text_ab text_ab = []
   \<and> additions (heap (snd (diffFile example_env (example_commit ''c1'') ''lib/same.js''
         ''modification'' example_state)) 2) = 0"
  using
    diffFile_true_modification [where E = example_env and filename = "''lib/a.js''"
      and commit = "example_commit ''c1''" and status = "''modification''" and parent = "''c0''"
      and cd = "\<lparr>parent_ids = [''c0''], created_at = Date 2026 10\<rparr>"
      and newContent = "''YQpiCmMK''" and oldContent = "''YQpiCg==''"
      and hunks = "[\<lparr>oldLines = 2, newLines = 3\<rparr>]" and s = example_state
      and p = "fst (diffFile example_env (example_commit ''c1'') ''lib/a.js'' ''modification''
                 example_state)"
      and s' = "snd (diffFile example_env (example_commit ''c1'') ''lib/a.js'' ''modification''
                  example_state)"]
    diffFile_true_modification [where E = example_env and filename = "''lib/same.js''"
      and commit = "example_commit ''c1''" and status = "''modification''" and parent = "''c0''"
      and cd = "\<lparr>parent_ids = [''c0''], created_at = Date 2026 10\<rparr>"
      and newContent = "''YQpiCg==''" and oldContent = "''YQpiCg==''"
      and hunks = "[]" and s = example_state
      and p = "fst (diffFile example_env (example_commit ''c1'') ''lib/same.js'' ''modification''
                 example_state)"
      and s' = "snd (diffFile example_env (example_commit ''c1'') ''lib/same.js'' ''modification''
                  example_state)"]
  by (simp add: valid_file_def in_window_def example_env_def example_commit_def
        example_gotCommit_def example_gotFile_def example_project_def example_state_def
        example_atob_def example_structuredPatch_def text_ab_def text_abc_def)

section \<open>diffFile: determinism\<close>

text \<open>
  C9: the outcome of diffFile is determined by its arguments, the remote responses and the
  evaluation time (all held in \<open>E\<close>): two runs with the same arguments in the same
  environment, started from any two program states (the second, for instance, from the state
  the first run left behind), settle alike, with a File of the same name, content and delta
  on resolution and with the same reason on rejection, and they emit the same requests and
  log lines. Nothing that an earlier call left in the store or in the trace has any
  influence.
\<close>

theorem diffFile_deterministic:
  "outcome (diffFile E commit filename status s1) = outcome (diffFile E commit filename status s2)
   \<and> emitted s1 (snd (diffFile E commit filename status s1))
     = emitted s2 (snd (diffFile E commit filename status s2))"
proof (cases "gotCommit E (project_id (getProject commit)) (getID commit)")
  case (Body response)
  show ?thesis
  proof (cases response)
    case None
    with Body show ?thesis
      by (simp add: diffFile_def onCommitData_def on_resolved_def Let_def state_defs tagged_def
            new_File_def)
  next
    case (Some cd)
    with Body show ?thesis
      by (cases "gotFile E (project_id (getProject commit)) filename (getID commit)";
          cases "gotFile E (project_id (getProject commit)) filename (parent_ids cd ! 0)")
         (auto simp: stage_defs Let_def state_defs file_defs tagged_def
               split: option.splits)
  qed
qed (simp_all add: diffFile_def on_resolved_def Let_def state_defs new_File_def)

section \<open>The variant in src/gitlab.js\<close>

text \<open>
  The two variants run alike on a commit that has a parent as long as the status is
  addition or removal, or both contents are present.
\<close>

lemma diffFile_src_agrees:
  assumes "gotCommit E (project_id (getProject commit)) (getID commit) = Body (Some cd)"
    and "parent_ids cd \<noteq> []"
    and "status = ''addition'' \<or> status = ''removal''
         \<or> (fetched (gotFile E (project_id (getProject commit)) filename (getID commit)) \<noteq> None
            \<and> fetched (gotFile E (project_id (getProject commit)) filename (parent_ids cd ! 0))
                \<noteq> None)"
  shows "diffFile_src E commit filename status s = diffFile E commit filename status s"
  using assms
  by (cases "gotFile E (project_id (getProject commit)) filename (getID commit)";
      cases "gotFile E (project_id (getProject commit)) filename (parent_ids cd ! 0)")
     (auto simp: stage_defs src_defs Let_def state_defs file_defs tagged_def
               split: option.splits)

text \<open>They reject an invalid path alike.\<close>

lemma diffFile_src_invalid_file:
  assumes "isIgnored E filename \<or> getSkill E filename = None"
  shows "diffFile_src E commit filename status s = diffFile E commit filename status s"
  using assms by (auto simp: diffFile_def diffFile_src_def state_defs new_File_def)

text \<open>This variant rejects an initial commit instead of counting its lines as added.\<close>

lemma diffFile_src_initial_commit:
  assumes "valid_file E filename"
    and "gotCommit E (project_id (getProject commit)) (getID commit) = Body (Some cd)"
    and "parent_ids cd = []"
    and "diffFile_src E commit filename status s = (p, s')"
  shows "p = Rejected (filename @ '' @ #'' @ getID commit @ '': error loading parent commit'')
       \<and> emitted s s' = [QueryCommit (project_id (getProject commit)) (getID commit)]"
  using assms
  by (auto simp: src_defs on_resolved_def Let_def state_defs file_defs valid_file_def tagged_def)

text \<open>
  It does not look at the contents before decoding them: with a status other than addition
  and removal and an Absent content on either side, the handler throws and the promise is
  never settled.
\<close>

lemma diffFile_src_absent_content:
  assumes "valid_file E filename"
    and "gotCommit E (project_id (getProject commit)) (getID commit) = Body (Some cd)"
    and "parent_ids cd = [parent]" and "in_window E cd"
    and "status \<noteq> ''addition''" and "status \<noteq> ''removal''"
    and "settles E (gotFile E (project_id (getProject commit)) filename (getID commit))"
    and "settles E (gotFile E (project_id (getProject commit)) filename parent)"
    and "fetched (gotFile E (project_id (getProject commit)) filename (getID commit)) = None
       \<or> fetched (gotFile E (project_id (getProject commit)) filename parent) = None"
  shows "fst (diffFile_src E commit filename status s) = Pending"
  using assms
  by (cases "gotFile E (project_id (getProject commit)) filename (getID commit)";
      cases "gotFile E (project_id (getProject commit)) filename parent")
     (auto simp: stage_defs src_defs Let_def state_defs file_defs valid_file_def in_window_def
           tagged_def split: option.splits)

end
